theory Spec2Isabelle
  imports Complex_Main "HOL-Library.Multiset"
begin

section \<open>Python values and exceptions\<close>

text \<open>
  The exceptions the modelled functions can meet. Every \<^verbatim>\<open>raise\<close> of the source
  is a value \<open>Inl e\<close> of a sum type.
\<close>

datatype error =
    KeyError | TypeError | ValueError | AttributeError | OverflowError
  | RequestException | HTTPError | JSONDecodeError

text \<open>
  What \<^verbatim>\<open>json.loads\<close> / \<^verbatim>\<open>resp.json()\<close> returns. \<open>JNull\<close> is Python's
  \<^verbatim>\<open>None\<close>; a dict is an association list read with \<open>map_of\<close>; a number is an
  int or a finite float, given by its value.
\<close>

datatype json =
    JNull
  | JBool bool
  | JNum real
  | JStr string
  | JArr "json list"
  | JObj "(string \<times> json) list"

text \<open>\<^verbatim>\<open>d.get(k, default)\<close>: an \<^verbatim>\<open>AttributeError\<close> when \<open>d\<close> is not a dict.\<close>

fun dict_get :: "json \<Rightarrow> string \<Rightarrow> json \<Rightarrow> error + json" where
  "dict_get (JObj kvs) k d = Inr (case map_of kvs k of None \<Rightarrow> d | Some v \<Rightarrow> v)"
| "dict_get _ k d = Inl AttributeError"

text \<open>Sequencing of statements that may raise.\<close>

definition bind_err :: "error + 'a \<Rightarrow> ('a \<Rightarrow> error + 'b) \<Rightarrow> error + 'b" where
  "bind_err r f = (case r of Inl e \<Rightarrow> Inl e | Inr v \<Rightarrow> f v)"

subsection \<open>Float arithmetic\<close>

text \<open>
  Where the code computes with floats (it divides and adds hashrates), the result of
  an operation is the exact result rounded to the float format. The rounding
  function \<open>rnd\<close> of the format is a parameter of the model; zero is a float, so an
  exact result of zero is not rounded, and adding zero changes nothing.
\<close>

definition fl_round :: "(real \<Rightarrow> real) \<Rightarrow> real \<Rightarrow> real" where
  "fl_round rnd x = (if x = 0 then 0 else rnd x)"

definition fl_add :: "(real \<Rightarrow> real) \<Rightarrow> real \<Rightarrow> real \<Rightarrow> real" where
  "fl_add rnd x y = (if y = 0 then x else if x = 0 then y else fl_round rnd (x + y))"

definition fl_div :: "(real \<Rightarrow> real) \<Rightarrow> real \<Rightarrow> real \<Rightarrow> real" where
  "fl_div rnd x c = fl_round rnd (x / c)"

text \<open>
  An int is converted to a float before it meets one; the conversion raises
  \<^verbatim>\<open>OverflowError\<close> for an int that would round to \<open>2 ^ 1024\<close> or beyond. No
  finite float is that large.
\<close>

definition float_overflows :: "real \<Rightarrow> bool" where
  "float_overflows x = (2 ^ 1024 - 2 ^ 970 \<le> \<bar>x\<bar>)"

text \<open>
  \<^verbatim>\<open>x / c\<close> for a float constant \<open>c \<noteq> 0\<close>: defined on numbers (and on bools, which
  are ints in Python), a \<^verbatim>\<open>TypeError\<close> on everything else.
\<close>

fun py_truediv :: "(real \<Rightarrow> real) \<Rightarrow> json \<Rightarrow> real \<Rightarrow> error + real" where
  "py_truediv rnd (JNum x) c =
     (if float_overflows x then Inl OverflowError
      else Inr (fl_div rnd (fl_round rnd x) c))"
| "py_truediv rnd (JBool b) c = Inr (fl_div rnd (if b then 1 else 0) c)"
| "py_truediv rnd _ c = Inl TypeError"

text \<open>\<^verbatim>\<open>int(x)\<close> of a float: truncation towards zero.\<close>

definition py_int :: "real \<Rightarrow> int" where
  "py_int x = (if 0 \<le> x then \<lfloor>x\<rfloor> else \<lceil>x\<rceil>)"

subsection \<open>Floats that are only compared\<close>

text \<open>
  A price is a float that the code stores and compares and never computes with. It
  can be any float that \<^verbatim>\<open>float(...)\<close> or the JSON decoder gives: a finite number,
  an infinity or NaN. Every comparison with NaN is false.
\<close>

datatype pyfloat = NegInf | Fin real | PosInf | NaN

fun fl_lt :: "pyfloat \<Rightarrow> pyfloat \<Rightarrow> bool" where
  "fl_lt NaN b = False"
| "fl_lt a NaN = False"
| "fl_lt a NegInf = False"
| "fl_lt NegInf b = True"
| "fl_lt PosInf b = False"
| "fl_lt (Fin x) PosInf = True"
| "fl_lt (Fin x) (Fin y) = (x < y)"

fun fl_le :: "pyfloat \<Rightarrow> pyfloat \<Rightarrow> bool" where
  "fl_le NaN b = False"
| "fl_le a NaN = False"
| "fl_le NegInf b = True"
| "fl_le a PosInf = True"
| "fl_le PosInf b = False"
| "fl_le (Fin x) NegInf = False"
| "fl_le (Fin x) (Fin y) = (x \<le> y)"

definition fl_gt :: "pyfloat \<Rightarrow> pyfloat \<Rightarrow> bool" where
  "fl_gt a b = fl_lt b a"

definition fl_ge :: "pyfloat \<Rightarrow> pyfloat \<Rightarrow> bool" where
  "fl_ge a b = fl_le b a"

text \<open>
  \<^verbatim>\<open>max(a, b)\<close> and \<^verbatim>\<open>min(a, b)\<close>: the first argument unless the second is
  greater (less).
\<close>

definition py_maxf :: "pyfloat \<Rightarrow> pyfloat \<Rightarrow> pyfloat" where
  "py_maxf a b = (if fl_gt b a then b else a)"

definition py_minf :: "pyfloat \<Rightarrow> pyfloat \<Rightarrow> pyfloat" where
  "py_minf a b = (if fl_lt b a then b else a)"

text \<open>
  \<^verbatim>\<open>float(x)\<close>. The parser of numeric strings is the parameter \<open>str_float\<close>
  (\<open>None\<close> where Python raises \<^verbatim>\<open>ValueError\<close>; it accepts spellings of NaN and of
  the infinities).
\<close>

fun py_float :: "(real \<Rightarrow> real) \<Rightarrow> (string \<Rightarrow> pyfloat option) \<Rightarrow> json \<Rightarrow> error + pyfloat" where
  "py_float rnd str_float (JNum x) =
     (if float_overflows x then Inl OverflowError else Inr (Fin (fl_round rnd x)))"
| "py_float rnd str_float (JBool b) = Inr (Fin (if b then 1 else 0))"
| "py_float rnd str_float (JStr s) =
     (case str_float s of None \<Rightarrow> Inl ValueError | Some x \<Rightarrow> Inr x)"
| "py_float rnd str_float _ = Inl TypeError"

subsection \<open>Strings and deques\<close>

text \<open>
  \<^verbatim>\<open>str.lower()\<close>. Strings are UTF-8 byte sequences; the ASCII letters are mapped
  and every other byte is kept.
\<close>

definition lower_char :: "char \<Rightarrow> char" where
  "lower_char c =
     (let n = (of_char c :: nat)
      in if 65 \<le> n \<and> n \<le> 90 then char_of (n + 32) else c)"

definition lower :: "string \<Rightarrow> string" where
  "lower s = map lower_char s"

text \<open>\<^verbatim>\<open>collections.deque(maxlen=n).append(x)\<close>: the oldest entries are dropped.\<close>

definition deque_append :: "nat \<Rightarrow> 'a list \<Rightarrow> 'a \<Rightarrow> 'a list" where
  "deque_append maxlen d x = (let d' = d @ [x] in drop (length d' - maxlen) d')"

section \<open>Ticker store and candle building (data.py, helpers.py, app.py)\<close>

text \<open>A candle is the dict \<^verbatim>\<open>{"start", "open", "high", "low", "close"}\<close>.\<close>

record candle =
  start :: real
  c_open :: pyfloat
  high :: pyfloat
  low :: pyfloat
  c_close :: pyfloat

text \<open>\<^verbatim>\<open>class TickerData\<close>; \<open>candles\<close> is the deque, oldest first.\<close>

record TickerData =
  price :: "pyfloat option"
  change_24h :: pyfloat
  status :: string
  last_update :: "real option"
  candles :: "candle list"
  current_candle :: "candle option"
  source :: string
  last_marquee_price :: "pyfloat option"

text \<open>The three bytes of the character U+2026 that ends the initial status.\<close>

definition ellipsis :: string where
  "ellipsis = [CHR 0xE2, CHR 0x80, CHR 0xA6]"

definition TickerData_init :: "string \<Rightarrow> TickerData" where
  "TickerData_init src =
     \<lparr> price = None, change_24h = Fin 0, status = ''Connecting'' @ ellipsis,
       last_update = None, candles = [], current_candle = None,
       source = src, last_marquee_price = None \<rparr>"

type_synonym store = "string \<rightharpoonup> TickerData"

text \<open>
  The initialisation loop of app.py over \<^verbatim>\<open>MAIN_SYMBOLS + MARQUEE_SYMBOLS\<close>;
  \<open>kraken_pairs\<close> and \<open>coingecko_ids\<close> are the key sets of the two config dicts.
\<close>

definition symbol_source :: "string list \<Rightarrow> string list \<Rightarrow> string \<Rightarrow> string" where
  "symbol_source kraken_pairs coingecko_ids key =
     (if key \<in> set kraken_pairs then ''kraken''
      else if key \<in> set coingecko_ids then ''coingecko''
      else ''binance'')"

fun init_data :: "string list \<Rightarrow> string list \<Rightarrow> string list \<Rightarrow> store \<Rightarrow> store" where
  "init_data kraken_pairs coingecko_ids [] data = data"
| "init_data kraken_pairs coingecko_ids (symbol # symbols) data =
     (let key = lower symbol
      in init_data kraken_pairs coingecko_ids symbols
           (data(key \<mapsto> TickerData_init (symbol_source kraken_pairs coingecko_ids key))))"

text \<open>
  \<^verbatim>\<open>update_ticker_data(key, price, change, update_marquee)\<close>. The clock reading
  \<open>now\<close> and the constants \<open>CANDLE_SECONDS\<close>, \<open>MAX_CANDLES\<close> are parameters. The
  result is what was raised (or \<open>Inr ()\<close>) together with the store afterwards.
  \<open>update_ticker\<close> is the body executed on the ticker object, \<open>build_candle\<close> its
  candle part.
\<close>

definition new_candle :: "real \<Rightarrow> pyfloat \<Rightarrow> candle" where
  "new_candle now p =
     \<lparr> start = of_int (py_int now), c_open = p, high = p, low = p, c_close = p \<rparr>"

definition build_candle :: "real \<Rightarrow> nat \<Rightarrow> real \<Rightarrow> pyfloat \<Rightarrow> TickerData \<Rightarrow> TickerData" where
  "build_candle CANDLE_SECONDS MAX_CANDLES now p ticker =
     (case current_candle ticker of
        None \<Rightarrow> ticker\<lparr> current_candle := Some (new_candle now p) \<rparr>
      | Some cndl \<Rightarrow>
          if now - start cndl \<ge> CANDLE_SECONDS
          then ticker\<lparr> candles := deque_append MAX_CANDLES (candles ticker) cndl,
                       current_candle := Some (new_candle now p) \<rparr>
          else ticker\<lparr> current_candle :=
                         Some (cndl\<lparr> high := py_maxf (high cndl) p,
                                     low := py_minf (low cndl) p,
                                     c_close := p \<rparr>) \<rparr>)"

definition update_ticker ::
  "real \<Rightarrow> nat \<Rightarrow> real \<Rightarrow> pyfloat \<Rightarrow> pyfloat \<Rightarrow> bool \<Rightarrow> TickerData \<Rightarrow> TickerData" where
  "update_ticker CANDLE_SECONDS MAX_CANDLES now p change update_marquee ticker =
     (let t1 = ticker\<lparr> price := Some p, change_24h := change,
                       status := ''Live'', last_update := Some now \<rparr>;
          t2 = (if update_marquee then t1\<lparr> last_marquee_price := Some p \<rparr> else t1)
      in build_candle CANDLE_SECONDS MAX_CANDLES now p t2)"

definition update_ticker_data ::
  "real \<Rightarrow> nat \<Rightarrow> real \<Rightarrow> string \<Rightarrow> pyfloat \<Rightarrow> pyfloat \<Rightarrow> bool \<Rightarrow> store \<Rightarrow> (error + unit) \<times> store" where
  "update_ticker_data CANDLE_SECONDS MAX_CANDLES now key p change update_marquee data =
     (case data key of
        None \<Rightarrow> (Inl KeyError, data)
      | Some ticker \<Rightarrow>
          (Inr (), data(key \<mapsto>
             update_ticker CANDLE_SECONDS MAX_CANDLES now p change update_marquee ticker)))"

text \<open>
  A sample is one call \<^verbatim>\<open>update_ticker_data(key, price, change, update_marquee)\<close>
  made at clock reading \<open>now\<close>. The callers (the message handlers and the REST
  bootstrap) catch what a call raises and go on, so a sequence of samples is fed one
  after the other to the store.
\<close>

type_synonym sample = "real \<times> string \<times> pyfloat \<times> pyfloat \<times> bool"

fun feed_samples :: "real \<Rightarrow> nat \<Rightarrow> sample list \<Rightarrow> store \<Rightarrow> store" where
  "feed_samples CANDLE_SECONDS MAX_CANDLES [] data = data"
| "feed_samples CANDLE_SECONDS MAX_CANDLES ((now, key, p, change, um) # rest) data =
     feed_samples CANDLE_SECONDS MAX_CANDLES rest
       (snd (update_ticker_data CANDLE_SECONDS MAX_CANDLES now key p change um data))"

definition sample_price :: "sample \<Rightarrow> pyfloat" where
  "sample_price s = fst (snd (snd s))"

text \<open>
  The shape every candle is to have, in both wordings of the specification:
  \<^verbatim>\<open>high >= max(open, close)\<close> and \<^verbatim>\<open>low <= min(open, close)\<close>, and the high at
  least, the low at most each of the other fields.
\<close>

definition candle_ok :: "candle \<Rightarrow> bool" where
  "candle_ok c =
     (fl_ge (high c) (py_maxf (c_open c) (c_close c))
      \<and> fl_le (low c) (py_minf (c_open c) (c_close c))
      \<and> fl_ge (high c) (c_open c) \<and> fl_ge (high c) (c_close c) \<and> fl_ge (high c) (low c)
      \<and> fl_le (low c) (c_open c) \<and> fl_le (low c) (c_close c) \<and> fl_le (low c) (high c))"

definition ticker_candles_ok :: "TickerData \<Rightarrow> bool" where
  "ticker_candles_ok t =
     (list_all candle_ok (candles t)
      \<and> (case current_candle t of None \<Rightarrow> True | Some c \<Rightarrow> candle_ok c))"

text \<open>Every record of a store has well-shaped candles.\<close>

definition store_ok :: "store \<Rightarrow> bool" where
  "store_ok data = (\<forall>k t. data k = Some t \<longrightarrow> ticker_candles_ok t)"

text \<open>
  The bucket start as the specification words it: the timestamp floored to a multiple
  of the bucket width.
\<close>

definition spec_bucket_start :: "real \<Rightarrow> real \<Rightarrow> real" where
  "spec_bucket_start bucket_width t = bucket_width * of_int \<lfloor>t / bucket_width\<rfloor>"

section \<open>The writer and the render loop as interleaved threads\<close>

text \<open>
  Two threads work on one ticker object. The writer runs \<^verbatim>\<open>update_ticker_data\<close>
  (helpers.py): it takes \<^verbatim>\<open>data_lock\<close>, assigns \<^verbatim>\<open>price\<close>, \<^verbatim>\<open>change_24h\<close>,
  \<^verbatim>\<open>status\<close>, \<^verbatim>\<open>last_update\<close>, then the marquee price and the candle, and
  releases the lock. The render loop (rendering.py, \<^verbatim>\<open>run_render_loop\<close>) takes the
  lock around \<^verbatim>\<open>ticker = data.get(current_symbol)\<close> and releases it; the marquee
  check of the next statement takes and releases the lock once more (in
  \<^verbatim>\<open>prices_changed_for_marquee\<close>, in an iteration that does not rebuild the
  marquee); then, holding no lock, the loop reads \<^verbatim>\<open>ticker.price\<close> and
  \<^verbatim>\<open>ticker.last_update\<close> of that same object. One step is one statement; a
  schedule is the order in which the threads take their steps. A thread that asks for
  a held lock, or that has finished, cannot step.
\<close>

datatype thread = Writer | Render

record race =
  ticker_obj :: TickerData
  data_lock :: "thread option"
  writer_pc :: nat
  render_pc :: nat
  render_ref :: bool
  seen_price :: "pyfloat option"
  seen_last_update :: "real option"

definition race_init :: "TickerData \<Rightarrow> race" where
  "race_init t =
     \<lparr> ticker_obj = t, data_lock = None, writer_pc = 0, render_pc = 0,
       render_ref = False, seen_price = None, seen_last_update = None \<rparr>"

definition writer_step ::
  "real \<Rightarrow> nat \<Rightarrow> real \<Rightarrow> pyfloat \<Rightarrow> pyfloat \<Rightarrow> bool \<Rightarrow> race \<Rightarrow> race option" where
  "writer_step CANDLE_SECONDS MAX_CANDLES now p change update_marquee s =
     (let t = ticker_obj s; pc = writer_pc s
      in if pc = 0 then
           (if data_lock s = None
            then Some (s\<lparr> data_lock := Some Writer, writer_pc := 1 \<rparr>) else None)
         else if pc = 1 then Some (s\<lparr> ticker_obj := t\<lparr> price := Some p \<rparr>, writer_pc := 2 \<rparr>)
         else if pc = 2 then Some (s\<lparr> ticker_obj := t\<lparr> change_24h := change \<rparr>, writer_pc := 3 \<rparr>)
         else if pc = 3 then Some (s\<lparr> ticker_obj := t\<lparr> status := ''Live'' \<rparr>, writer_pc := 4 \<rparr>)
         else if pc = 4 then Some (s\<lparr> ticker_obj := t\<lparr> last_update := Some now \<rparr>, writer_pc := 5 \<rparr>)
         else if pc = 5 then
           Some (s\<lparr> ticker_obj := (if update_marquee then t\<lparr> last_marquee_price := Some p \<rparr> else t),
                   writer_pc := 6 \<rparr>)
         else if pc = 6 then
           Some (s\<lparr> ticker_obj := build_candle CANDLE_SECONDS MAX_CANDLES now p t, writer_pc := 7 \<rparr>)
         else if pc = 7 then Some (s\<lparr> data_lock := None, writer_pc := 8 \<rparr>)
         else None)"

definition render_step :: "race \<Rightarrow> race option" where
  "render_step s =
     (let pc = render_pc s
      in if pc = 0 then
           (if data_lock s = None
            then Some (s\<lparr> data_lock := Some Render, render_pc := 1 \<rparr>) else None)
         else if pc = 1 then Some (s\<lparr> render_ref := True, render_pc := 2 \<rparr>)
         else if pc = 2 then Some (s\<lparr> data_lock := None, render_pc := 3 \<rparr>)
         else if pc = 3 then
           (if data_lock s = None
            then Some (s\<lparr> data_lock := Some Render, render_pc := 4 \<rparr>) else None)
         else if pc = 4 then Some (s\<lparr> data_lock := None, render_pc := 5 \<rparr>)
         else if pc = 5 then Some (s\<lparr> seen_price := price (ticker_obj s), render_pc := 6 \<rparr>)
         else if pc = 6 then
           Some (s\<lparr> seen_last_update := last_update (ticker_obj s), render_pc := 7 \<rparr>)
         else None)"

fun run_schedule ::
  "real \<Rightarrow> nat \<Rightarrow> real \<Rightarrow> pyfloat \<Rightarrow> pyfloat \<Rightarrow> bool \<Rightarrow> thread list \<Rightarrow> race \<Rightarrow> race option" where
  "run_schedule cs mc now p change um [] s = Some s"
| "run_schedule cs mc now p change um (Writer # sched) s =
     (case writer_step cs mc now p change um s of
        None \<Rightarrow> None | Some s' \<Rightarrow> run_schedule cs mc now p change um sched s')"
| "run_schedule cs mc now p change um (Render # sched) s =
     (case render_step s of
        None \<Rightarrow> None | Some s' \<Rightarrow> run_schedule cs mc now p change um sched s')"

text \<open>
  A ticker that has received one sample: price 50000 at clock reading 100.
\<close>

definition ticker_before :: TickerData where
  "ticker_before = update_ticker 60 14 100 (Fin 50000) (Fin 1.2) True (TickerData_init ''binance'')"

section \<open>Module globals, streaming drivers and reconnect delay (websockets.py)\<close>

text \<open>
  The status strings and the connectivity cache are module globals. data.py defines
  them; helpers.py and websockets.py each bind names of their own with
  \<^verbatim>\<open>from src.data import ...\<close>, which copies the value bound at import time. A
  \<^verbatim>\<open>global x; x = v\<close> inside a function rebinds the name of the module the function
  is defined in. So every module has its own field here.
\<close>

record modules =
  data_binance_ws_status :: string
  data_kraken_ws_status :: string
  helpers_binance_ws_status :: string
  helpers_kraken_ws_status :: string
  websockets_binance_ws_status :: string
  websockets_kraken_ws_status :: string
  helpers_wifi_ok :: bool
  helpers_last_wifi_check :: real

definition modules_init :: modules where
  "modules_init =
     \<lparr> data_binance_ws_status = ''Connecting'' @ ellipsis,
       data_kraken_ws_status = ''Connecting'' @ ellipsis,
       helpers_binance_ws_status = ''Connecting'' @ ellipsis,
       helpers_kraken_ws_status = ''Connecting'' @ ellipsis,
       websockets_binance_ws_status = ''Connecting'' @ ellipsis,
       websockets_kraken_ws_status = ''Connecting'' @ ellipsis,
       helpers_wifi_ok = False,
       helpers_last_wifi_check = 0 \<rparr>"

text \<open>
  What \<^verbatim>\<open>run_forever\<close> delivers to the callbacks during one connection. The
  message handlers write ticker data only (through \<open>update_ticker_data\<close>) and no
  status, so a message leaves the module globals as they are.
\<close>

datatype ws_event = OnOpen | OnMessage string | OnError string | OnClose

definition kraken_on_open :: "modules \<Rightarrow> modules" where
  "kraken_on_open m = m\<lparr> websockets_kraken_ws_status := ''Live'' \<rparr>"

definition kraken_on_error :: "modules \<Rightarrow> modules" where
  "kraken_on_error m = m\<lparr> websockets_kraken_ws_status := ''Error'' \<rparr>"

definition kraken_on_close :: "modules \<Rightarrow> modules" where
  "kraken_on_close m = m\<lparr> websockets_kraken_ws_status := ''Reconnecting'' @ ellipsis \<rparr>"

definition binance_on_open :: "modules \<Rightarrow> modules" where
  "binance_on_open m = m\<lparr> websockets_binance_ws_status := ''Live'' \<rparr>"

definition binance_on_error :: "modules \<Rightarrow> modules" where
  "binance_on_error m = m\<lparr> websockets_binance_ws_status := ''Error'' \<rparr>"

definition binance_on_close :: "modules \<Rightarrow> modules" where
  "binance_on_close m = m\<lparr> websockets_binance_ws_status := ''Reconnecting'' @ ellipsis \<rparr>"

fun kraken_callback :: "ws_event \<Rightarrow> modules \<Rightarrow> modules" where
  "kraken_callback OnOpen m = kraken_on_open m"
| "kraken_callback (OnMessage msg) m = m"
| "kraken_callback (OnError err) m = kraken_on_error m"
| "kraken_callback OnClose m = kraken_on_close m"

fun binance_callback :: "ws_event \<Rightarrow> modules \<Rightarrow> modules" where
  "binance_callback OnOpen m = binance_on_open m"
| "binance_callback (OnMessage msg) m = m"
| "binance_callback (OnError err) m = binance_on_error m"
| "binance_callback OnClose m = binance_on_close m"







section \<open>Connection health (helpers.py)\<close>

type_synonym colour = "nat \<times> nat \<times> nat"

definition GREEN :: colour where "GREEN = (0, 230, 140)"
definition RED :: colour where "RED = (255, 90, 90)"
definition ORANGE :: colour where "ORANGE = (255, 180, 0)"

definition binance_ok :: "string \<Rightarrow> bool" where
  "binance_ok st =
     (lower st \<in> set [''websocket connected'', ''binance ws connected'', ''connected'',
                       ''live'', ''open'', ''connecting'' @ ellipsis, ''subscription sent''])"

definition kraken_ok :: "string \<Rightarrow> bool" where
  "kraken_ok st =
     (lower st \<in> set [''websocket connected'', ''kraken subscription sent'', ''connected'',
                       ''live'', ''open'', ''connecting'' @ ellipsis, ''subscription sent''])"

text \<open>The colour chosen from the cached probe result and two status strings.\<close>

definition ws_color_of :: "bool \<Rightarrow> string \<Rightarrow> string \<Rightarrow> colour" where
  "ws_color_of wifi b k =
     (if \<not> wifi then RED
      else if binance_ok b \<and> kraken_ok k then GREEN
      else if binance_ok b \<or> kraken_ok k then ORANGE
      else RED)"

text \<open>
  \<^verbatim>\<open>get_ws_color()\<close> at clock reading \<open>now\<close>; \<open>probe\<close> is what
  \<^verbatim>\<open>is_wifi_connected()\<close> returns if it is called. The function is defined in
  helpers.py, so the names it reads and rebinds are those of helpers.py.
\<close>

definition get_ws_color :: "real \<Rightarrow> real \<Rightarrow> bool \<Rightarrow> modules \<Rightarrow> colour \<times> modules" where
  "get_ws_color WIFI_CHECK_INTERVAL now probe m =
     (let m' = (if now - helpers_last_wifi_check m > WIFI_CHECK_INTERVAL
                then m\<lparr> helpers_wifi_ok := probe, helpers_last_wifi_check := now \<rparr>
                else m)
      in (ws_color_of (helpers_wifi_ok m')
            (helpers_binance_ws_status m') (helpers_kraken_ws_status m'), m'))"

section \<open>Miner polling (miners.py)\<close>

text \<open>
  What \<^verbatim>\<open>requests.get\<close> gives for a miner: an exception (timeout, connection
  error) or a response with its status code and its body, \<open>None\<close> for a body that is
  not JSON.
\<close>

record response =
  status_code :: nat
  body :: "json option"

definition raise_for_status :: "response \<Rightarrow> error + unit" where
  "raise_for_status resp =
     (if 400 \<le> status_code resp \<and> status_code resp < 600 then Inl HTTPError else Inr ())"

definition resp_json :: "response \<Rightarrow> error + json" where
  "resp_json resp = (case body resp of None \<Rightarrow> Inl JSONDecodeError | Some j \<Rightarrow> Inr j)"

text \<open>
  The body of the \<^verbatim>\<open>try\<close> of \<^verbatim>\<open>fetch_miner_stats(ip)\<close>; \<open>net\<close> answers the
  request to an address. \<^verbatim>\<open>bestDiff\<close> is returned as the JSON gives it.
\<close>

definition fetch_miner_try ::
  "(real \<Rightarrow> real) \<Rightarrow> (string \<Rightarrow> error + response) \<Rightarrow> string \<Rightarrow> error + (real \<times> json \<times> bool)" where
  "fetch_miner_try rnd net ip =
     bind_err (net ip) (\<lambda>resp.
     bind_err (raise_for_status resp) (\<lambda>_.
     bind_err (resp_json resp) (\<lambda>data.
     bind_err (bind_err (dict_get data ''hashRate'' (JNum 0)) (\<lambda>h. py_truediv rnd h 1000)) (\<lambda>hr_th.
     bind_err (dict_get data ''bestDiff'' (JNum 0)) (\<lambda>diff.
     Inr (hr_th, diff, True))))))"

definition fetch_miner_stats ::
  "(real \<Rightarrow> real) \<Rightarrow> (string \<Rightarrow> error + response) \<Rightarrow> string \<Rightarrow> real \<times> json \<times> bool" where
  "fetch_miner_stats rnd net ip =
     (case fetch_miner_try rnd net ip of
        Inl e \<Rightarrow> (0, JNum 0, False)
      | Inr r \<Rightarrow> r)"

text \<open>
  \<^verbatim>\<open>max(best_diff, diff)\<close>: the first argument unless the second is greater; the
  comparison raises \<^verbatim>\<open>TypeError\<close> when \<open>diff\<close> is no number.
\<close>

fun py_max :: "real \<Rightarrow> json \<Rightarrow> error + real" where
  "py_max b (JNum d) = Inr (if d > b then d else b)"
| "py_max b (JBool t) = Inr (if (if t then 1 else 0) > b then (if t then 1 else 0) else b)"
| "py_max b _ = Inl TypeError"



text \<open>
  The loop over \<^verbatim>\<open>as_completed(futures)\<close>: the results in their order of arrival,
  the four accumulators \<open>(total_hr, best_diff, conn_count, act_count)\<close>.
\<close>

type_synonym accum = "real \<times> real \<times> nat \<times> nat"

fun accumulate ::
  "(real \<Rightarrow> real) \<Rightarrow> real \<Rightarrow> (real \<times> json \<times> bool) list \<Rightarrow> accum \<Rightarrow> error + accum" where
  "accumulate rnd MINER_ACTIVE_THRESHOLD [] acc = Inr acc"
| "accumulate rnd MINER_ACTIVE_THRESHOLD ((hr, diff, conn) # rest) (total_hr, best_diff, conn_count, act_count) =
     bind_err (py_max best_diff diff) (\<lambda>best_diff'.
       accumulate rnd MINER_ACTIVE_THRESHOLD rest
         (fl_add rnd total_hr hr, best_diff',
          (if conn then conn_count + 1 else conn_count),
          (if hr > MINER_ACTIVE_THRESHOLD then act_count + 1 else act_count)))"

record miner_stats =
  total_hashrate_th :: real
  best_difficulty :: real
  connected_count :: nat
  active_count :: nat
  total_miners :: nat

record miners_state =
  stats :: miner_stats
  hash_history :: "real list"


text \<open>
  One iteration of the loop of \<^verbatim>\<open>run_miners_polling\<close>: \<open>arrival\<close> lists the
  addresses in the order their futures complete. What the loop raises ends the
  thread before anything is stored.
\<close>

definition miners_cycle ::
  "(real \<Rightarrow> real) \<Rightarrow> real \<Rightarrow> nat \<Rightarrow> (string \<Rightarrow> error + response) \<Rightarrow> string list \<Rightarrow> miners_state
     \<Rightarrow> error + miners_state" where
  "miners_cycle rnd MINER_ACTIVE_THRESHOLD MAX_CANDLES net arrival st =
     bind_err (accumulate rnd MINER_ACTIVE_THRESHOLD (map (fetch_miner_stats rnd net) arrival) (0, 0, 0, 0))
       (\<lambda>(total_hr, best_diff, conn_count, act_count).
          Inr \<lparr> stats = (stats st)\<lparr> total_hashrate_th := total_hr,
                                   best_difficulty := best_diff,
                                   connected_count := conn_count,
                                   active_count := act_count \<rparr>,
                hash_history = deque_append MAX_CANDLES (hash_history st) total_hr \<rparr>)"

text \<open>
  \<^verbatim>\<open>run_miners_polling(miners_ips)\<close>, one list element (the network and the arrival
  order of that cycle) per iteration. It returns at once for an empty address list.
\<close>

fun miners_loop ::
  "(real \<Rightarrow> real) \<Rightarrow> real \<Rightarrow> nat \<Rightarrow> ((string \<Rightarrow> error + response) \<times> string list) list \<Rightarrow> miners_state
     \<Rightarrow> error + miners_state" where
  "miners_loop rnd t mc [] st = Inr st"
| "miners_loop rnd t mc ((net, arrival) # cycles) st =
     bind_err (miners_cycle rnd t mc net arrival st) (miners_loop rnd t mc cycles)"

definition run_miners_polling ::
  "(real \<Rightarrow> real) \<Rightarrow> real \<Rightarrow> nat \<Rightarrow> string list \<Rightarrow> ((string \<Rightarrow> error + response) \<times> string list) list
     \<Rightarrow> miners_state \<Rightarrow> error + miners_state" where
  "run_miners_polling rnd t mc miners_ips cycles st =
     (if miners_ips = [] then Inr st else miners_loop rnd t mc cycles st)"


subsection \<open>Rounding to the 64-bit float format\<close>

text \<open>
  The rounding of the IEEE 754 binary64 format that CPython uses, to the nearest float
  with ties to the even one, for results within the finite range: \<open>binade\<close> finds
  the \<open>e\<close> with \<open>2 ^ e \<le> x < 2 ^ (e + 1)\<close> (going down or up from 0, at most 1074
  steps for a float), the floats from \<open>2 ^ e\<close> on are \<open>2 ^ (e - 52)\<close> apart, and
  below \<open>2 ^ (- 1022)\<close> as far apart as there.
\<close>

definition pow2 :: "int \<Rightarrow> real" where
  "pow2 e = (if 0 \<le> e then 2 ^ nat e else 1 / 2 ^ nat (- e))"

fun binade :: "nat \<Rightarrow> real \<Rightarrow> int \<Rightarrow> int" where
  "binade 0 x e = e"
| "binade (Suc fuel) x e =
     (if x < pow2 e then binade fuel x (e - 1)
      else if pow2 (e + 1) \<le> x then binade fuel x (e + 1)
      else e)"

definition round_half_even :: "real \<Rightarrow> int" where
  "round_half_even y =
     (let f = \<lfloor>y\<rfloor>; r = y - of_int f
      in if r < 1 / 2 then f else if 1 / 2 < r then f + 1 else if even f then f else f + 1)"

definition round_double :: "real \<Rightarrow> real" where
  "round_double x =
     (if x = 0 then 0
      else let e = max (binade 2200 \<bar>x\<bar> 0) (- 1022); q = pow2 (e - 52)
           in of_int (round_half_even (x / q)) * q)"

text \<open>
  The scenario of the specification: three miners, the second of which times out,
  answering 10 TH/s with best difficulty 500 and 5 TH/s with best difficulty 300
  (the API reports GH/s).
\<close>

definition scenario_net :: "string \<Rightarrow> error + response" where
  "scenario_net ip =
     (if ip = ''10.0.0.1''
      then Inr \<lparr> status_code = 200,
                 body = Some (JObj [(''hashRate'', JNum 10000), (''bestDiff'', JNum 500)]) \<rparr>
      else if ip = ''10.0.0.3''
      then Inr \<lparr> status_code = 200,
                 body = Some (JObj [(''hashRate'', JNum 5000), (''bestDiff'', JNum 300)]) \<rparr>
      else Inl RequestException)"



section \<open>Network statistics polling (mempool.py)\<close>

text \<open>
  The text of a response is a Python \<^verbatim>\<open>str\<close>: a list of Unicode code points. What
  the interpreter brings along is a parameter of the model: the rounding of the float
  format, the parser of numeric strings, and for every code point whether
  \<^verbatim>\<open>str.isspace\<close> and \<^verbatim>\<open>str.isdigit\<close> hold of it and its value as a decimal
  digit (\<open>None\<close> for a character that \<^verbatim>\<open>int\<close> rejects, such as a superscript
  digit), and the limit on the number of digits that \<^verbatim>\<open>int\<close> converts (0 for no
  limit).
\<close>

type_synonym ustr = "nat list"

record runtime =
  float_round :: "real \<Rightarrow> real"
  str_float :: "string \<Rightarrow> pyfloat option"
  ch_isspace :: "nat \<Rightarrow> bool"
  ch_isdigit :: "nat \<Rightarrow> bool"
  ch_decimal :: "nat \<Rightarrow> nat option"
  int_max_str_digits :: nat

definition strip :: "runtime \<Rightarrow> ustr \<Rightarrow> ustr" where
  "strip rt s = rev (dropWhile (ch_isspace rt) (rev (dropWhile (ch_isspace rt) s)))"

definition isdigit :: "runtime \<Rightarrow> ustr \<Rightarrow> bool" where
  "isdigit rt s = (s \<noteq> [] \<and> list_all (ch_isdigit rt) s)"

text \<open>
  \<^verbatim>\<open>int(s)\<close> for a string of digit characters: \<^verbatim>\<open>ValueError\<close> when it is longer
  than the limit or holds a digit character that is no decimal digit.
\<close>

definition int_of_str :: "runtime \<Rightarrow> ustr \<Rightarrow> error + int" where
  "int_of_str rt s =
     (if 0 < int_max_str_digits rt \<and> int_max_str_digits rt < length s then Inl ValueError
      else if list_all (\<lambda>c. ch_decimal rt c \<noteq> None) s
      then Inr (foldl (\<lambda>a c. 10 * a + (case ch_decimal rt c of None \<Rightarrow> 0 | Some d \<Rightarrow> int d)) 0 s)
      else Inl ValueError)"

text \<open>
  The answers of mempool.space in one cycle. The two JSON requests give the parsed
  body or what \<^verbatim>\<open>requests.get(...).json()\<close> raised; the text requests give
  \<^verbatim>\<open>.text\<close> or what \<^verbatim>\<open>requests.get\<close> raised. No status code is checked.
\<close>

record mempool_env =
  fees_resp :: "error + json"
  height_resp :: "error + ustr"
  hash_resp :: "int \<Rightarrow> error + ustr"
  block_resp :: "ustr \<Rightarrow> error + json"
  hr_resp :: "error + json"

text \<open>
  The dict \<^verbatim>\<open>mempool_data\<close>. \<^verbatim>\<open>mining_pool\<close> and \<^verbatim>\<open>network_difficulty\<close> hold
  the JSON values as they came, \<open>JNull\<close> being \<^verbatim>\<open>None\<close>.
\<close>

record mempool_data =
  fees_sats_vb :: "pyfloat option"
  block_height :: "int option"
  mining_pool :: json
  network_hashrate_eh :: "real option"
  network_difficulty :: json


text \<open>
  \<^verbatim>\<open>height = int(height_str) if height_str.isdigit() else None\<close> on the stripped
  text of the height response.
\<close>

definition parse_height :: "runtime \<Rightarrow> ustr \<Rightarrow> error + int option" where
  "parse_height rt height_text =
     (let height_str = strip rt height_text
      in if isdigit rt height_str
         then bind_err (int_of_str rt height_str) (\<lambda>n. Inr (Some n))
         else Inr None)"

text \<open>\<^verbatim>\<open>block_resp.get("extras", {}).get("pool", {}).get("name", "Unknown")\<close>.\<close>

definition pool_name :: "json \<Rightarrow> error + json" where
  "pool_name block =
     bind_err (dict_get block ''extras'' (JObj [])) (\<lambda>extras.
     bind_err (dict_get extras ''pool'' (JObj [])) (\<lambda>pool_obj.
     dict_get pool_obj ''name'' (JStr ''Unknown'')))"

text \<open>The block lookup under \<^verbatim>\<open>if height:\<close>, giving \<open>(pool, net_diff)\<close>.\<close>

definition fetch_block :: "runtime \<Rightarrow> mempool_env \<Rightarrow> int option \<Rightarrow> error + (json \<times> json)" where
  "fetch_block rt env height =
     (case height of
        None \<Rightarrow> Inr (JNull, JNull)
      | Some h \<Rightarrow>
          if h = 0 then Inr (JNull, JNull)
          else
            bind_err (hash_resp env h) (\<lambda>hash_text.
              let block_hash = strip rt hash_text
              in if block_hash = [] then Inr (JNull, JNull)
                 else
                   bind_err (block_resp env block_hash) (\<lambda>block.
                   bind_err (pool_name block) (\<lambda>pool.
                   bind_err (dict_get block ''difficulty'' JNull) (\<lambda>net_diff.
                   Inr (pool, net_diff))))))"

text \<open>The body of the \<^verbatim>\<open>try\<close> of one cycle: the five values to store.\<close>

definition mempool_try :: "runtime \<Rightarrow> mempool_env \<Rightarrow> error + mempool_data" where
  "mempool_try rt env =
     bind_err (fees_resp env) (\<lambda>fees_json.
     bind_err (dict_get fees_json ''halfHourFee'' JNull) (\<lambda>fee_val.
     bind_err (py_float (float_round rt) (str_float rt) fee_val) (\<lambda>fees.
     bind_err (height_resp env) (\<lambda>height_text.
     bind_err (parse_height rt height_text) (\<lambda>height.
     bind_err (fetch_block rt env height) (\<lambda>(pool, net_diff).
     bind_err (hr_resp env) (\<lambda>hr_json.
     bind_err (dict_get hr_json ''currentHashrate'' (JNum 0)) (\<lambda>hr_val.
     bind_err (py_truediv (float_round rt) hr_val (10 ^ 18)) (\<lambda>net_hr.
     Inr \<lparr> fees_sats_vb = Some fees, block_height = height, mining_pool = pool,
           network_hashrate_eh = Some net_hr, network_difficulty = net_diff \<rparr>)))))))))"





text \<open>
  An interpreter to evaluate cycles with: the 64-bit rounding and the rows of the
  character tables below code point 256 (white space; the ten decimal digits, and
  the superscripts one, two and three, which are digits and no decimal digits); the
  cycles below hold no numeric string. \<open>ustr_of\<close> reads an ASCII literal as a text.
\<close>

definition latin1_runtime :: runtime where
  "latin1_runtime =
     \<lparr> float_round = round_double,
       str_float = (\<lambda>s. None),
       ch_isspace = (\<lambda>c. c \<in> {9, 10, 11, 12, 13, 28, 29, 30, 31, 32, 133, 160}),
       ch_isdigit = (\<lambda>c. (48 \<le> c \<and> c \<le> 57) \<or> c \<in> {178, 179, 185}),
       ch_decimal = (\<lambda>c. if 48 \<le> c \<and> c \<le> 57 then Some (c - 48) else None),
       int_max_str_digits = 4300 \<rparr>"

definition ustr_of :: "string \<Rightarrow> ustr" where
  "ustr_of s = map of_char s"


definition full_env :: mempool_env where
  "full_env =
     \<lparr> fees_resp = Inr (JObj [(''fastestFee'', JNum 5), (''halfHourFee'', JNum 3)]),
       height_resp = Inr (ustr_of ''870000'' @ [10]),
       hash_resp = (\<lambda>h. if h = 870000 then Inr (ustr_of ''00000000000000000001a2b3'')
                         else Inl RequestException),
       block_resp = (\<lambda>b. if b = ustr_of ''00000000000000000001a2b3''
                         then Inr (JObj [(''difficulty'', JNum 95672703408223),
                                         (''extras'', JObj [(''pool'', JObj [(''name'', JStr ''Foundry USA'')])])])
                         else Inl RequestException),
       hr_resp = Inr (JObj [(''currentHashrate'', JNum 600000000000000000000)]) \<rparr>"

definition hashrate_timeout_env :: mempool_env where
  "hashrate_timeout_env = full_env\<lparr> hr_resp := Inl RequestException \<rparr>"


definition bare_block_env :: mempool_env where
  "bare_block_env = full_env\<lparr> block_resp := (\<lambda>b. Inr (JObj [])) \<rparr>"

definition superscript_env :: mempool_env where
  "superscript_env = full_env\<lparr> height_resp := Inr [178] \<rparr>"

section \<open>Properties of the ticker store\<close>

lemma init_data_Cons:
  "init_data kp cg (s # symbols) data =
     init_data kp cg symbols (data(lower s \<mapsto> TickerData_init (symbol_source kp cg (lower s))))"
  by (simp only: init_data.simps Let_def)

lemma init_data_dom:
  "dom (init_data kp cg symbols data) = dom data \<union> lower ` set symbols"
proof (induction symbols arbitrary: data)
  case Nil
  show ?case by simp
next
  case (Cons s symbols)
  show ?case by (simp only: init_data_Cons Cons.IH) auto
qed

lemma lower_btcusdt: "lower ''BTCUSDT'' = ''btcusdt''"
  by code_simp

lemma init_data_btcusdt:
  "init_data [] [] [''BTCUSDT''] Map.empty = [''btcusdt'' \<mapsto> TickerData_init ''binance'']"
  by (simp only: init_data_Cons init_data.simps lower_btcusdt) (simp add: symbol_source_def)

lemma update_ticker_data_dom:
  "dom (snd (update_ticker_data cs mc now key p change um data)) = dom data"
  by (auto simp: update_ticker_data_def split: option.splits)

lemma feed_samples_dom: "dom (feed_samples cs mc samples data) = dom data"
  by (induction cs mc samples data rule: feed_samples.induct)
     (simp_all add: update_ticker_data_dom)

text \<open>
  C9. For a key that is not in the ticker map, \<open>update_ticker_data\<close> raises
  \<open>KeyError\<close> and leaves the store as it was: no record is inserted for the key, and
  the set of keys of the store is the same after any sequence of updates.
\<close>

theorem update_ticker_data_unknown_key:
  "key \<notin> dom data \<Longrightarrow>
     update_ticker_data cs mc now key p change um data = (Inl KeyError, data)
     \<and> key \<notin> dom (snd (update_ticker_data cs mc now key p change um data))
     \<and> dom (feed_samples cs mc samples data) = dom data"
  by (auto simp: update_ticker_data_def feed_samples_dom split: option.splits)

theorem update_ticker_data_unknown_key_witness:
  "''ethusdt'' \<notin> dom (init_data [] [] [''BTCUSDT''] Map.empty)
   \<and> update_ticker_data 60 14 100 ''ethusdt'' (Fin 2000) (Fin 1) True (init_data [] [] [''BTCUSDT''] Map.empty)
       = (Inl KeyError, init_data [] [] [''BTCUSDT''] Map.empty)"
proof -
  have h: "''ethusdt'' \<notin> dom (init_data [] [] [''BTCUSDT''] Map.empty)"
    by (simp add: init_data_dom lower_btcusdt del: init_data.simps)
  show ?thesis
    using h update_ticker_data_unknown_key [OF h, of 60 14 100 "Fin 2000" "Fin 1" True "[]"] by blast
qed

subsection \<open>Shape of the candles\<close>

lemma set_deque_append: "set (deque_append n d x) \<subseteq> insert x (set d)"
  using set_drop_subset [of "length (d @ [x]) - n" "d @ [x]"]
  by (auto simp: deque_append_def Let_def)

lemma fl_le_refl: "p \<noteq> NaN \<Longrightarrow> fl_le p p"
  by (cases p) simp_all

lemma candle_ok_new: "p \<noteq> NaN \<Longrightarrow> candle_ok (new_candle now p)"
  by (simp add: candle_ok_def new_candle_def py_maxf_def py_minf_def fl_ge_def fl_gt_def fl_le_refl)

lemma candle_ok_widen:
  assumes "candle_ok c" and "p \<noteq> NaN"
  shows "candle_ok (c\<lparr> high := py_maxf (high c) p, low := py_minf (low c) p, c_close := p \<rparr>)"
proof -
  obtain op hi lo where f: "c_open c = op" "high c = hi" "low c = lo" by blast
  from assms(1) have "fl_le op hi" "fl_le lo op" "fl_le lo hi"
    by (simp_all add: candle_ok_def f fl_ge_def)
  with assms(2) show ?thesis
    unfolding candle_ok_def py_maxf_def py_minf_def fl_ge_def fl_gt_def
    by (cases op; cases hi; cases lo; cases p) (simp_all add: f)
qed

lemma build_candle_ok:
  assumes "ticker_candles_ok t" and "p \<noteq> NaN"
  shows "ticker_candles_ok (build_candle cs mc now p t)"
proof (cases "current_candle t")
  case None
  with assms show ?thesis
    by (simp add: ticker_candles_ok_def build_candle_def candle_ok_new)
next
  case (Some c)
  with assms(1) have c: "candle_ok c" and cs: "\<forall>x\<in>set (candles t). candle_ok x"
    by (simp_all add: ticker_candles_ok_def list_all_iff)
  have "\<forall>x\<in>set (deque_append mc (candles t) c). candle_ok x"
    using set_deque_append [of mc "candles t" c] c cs by auto
  with Some c cs assms(2) show ?thesis
    by (simp add: ticker_candles_ok_def build_candle_def candle_ok_new candle_ok_widen list_all_iff)
qed

lemma update_ticker_ok:
  "ticker_candles_ok t \<Longrightarrow> p \<noteq> NaN \<Longrightarrow>
     ticker_candles_ok (update_ticker cs mc now p change um t)"
  unfolding update_ticker_def Let_def
  by (rule build_candle_ok) (simp_all add: ticker_candles_ok_def)

lemma update_ticker_data_ok:
  "store_ok data \<Longrightarrow> p \<noteq> NaN \<Longrightarrow>
     store_ok (snd (update_ticker_data cs mc now key p change um data))"
  by (auto simp: store_ok_def update_ticker_data_def update_ticker_ok split: option.splits)

lemma feed_samples_ok:
  "store_ok data \<Longrightarrow> \<forall>s\<in>set samples. sample_price s \<noteq> NaN \<Longrightarrow>
     store_ok (feed_samples cs mc samples data)"
  by (induction cs mc samples data rule: feed_samples.induct)
     (simp_all add: update_ticker_data_ok sample_price_def)

lemma init_data_ok: "store_ok data \<Longrightarrow> store_ok (init_data kp cg symbols data)"
proof (induction symbols arbitrary: data)
  case Nil
  then show ?case by simp
next
  case (Cons s symbols)
  have "store_ok (data(lower s \<mapsto> TickerData_init (symbol_source kp cg (lower s))))"
    using Cons.prems by (simp add: store_ok_def ticker_candles_ok_def TickerData_init_def)
  from Cons.IH [OF this] show ?case by (simp only: init_data_Cons)
qed

text \<open>
  C2, as the code has it. Start from the store that app.py initialises and feed
  through \<open>update_ticker_data\<close> any sequence of samples in which no price is NaN.
  Then in every record every candle of the closed history, and the open candle that
  will be pushed next, has its high at least \<open>max(open, close)\<close> and its low at
  most \<open>min(open, close)\<close>, and equivalently its high at least each of open, close
  and low and its low at most each of open, close and high.
\<close>

theorem closed_candles_ok:
  "\<forall>s\<in>set samples. sample_price s \<noteq> NaN \<Longrightarrow>
   feed_samples cs mc samples (init_data kp cg symbols Map.empty) key = Some t
     \<Longrightarrow> ticker_candles_ok t"
  using feed_samples_ok [OF init_data_ok [of Map.empty kp cg symbols], of samples cs mc]
  by (simp add: store_ok_def)

lemma feed_three_samples:
  "feed_samples 60 14
     [(0, ''btcusdt'', Fin 5, Fin 0, True), (30, ''btcusdt'', Fin 7, Fin 0, True),
      (61, ''btcusdt'', Fin 6, Fin 0, True)]
     [''btcusdt'' \<mapsto> TickerData_init ''binance''] ''btcusdt''
   = Some \<lparr> price = Some (Fin 6), change_24h = Fin 0, status = ''Live'', last_update = Some 61,
       candles = [\<lparr> start = 0, c_open = Fin 5, high = Fin 7, low = Fin 5, c_close = Fin 7 \<rparr>],
       current_candle = Some \<lparr> start = 61, c_open = Fin 6, high = Fin 6, low = Fin 6, c_close = Fin 6 \<rparr>,
       source = ''binance'', last_marquee_price = Some (Fin 6) \<rparr>"
  by (simp add: update_ticker_data_def update_ticker_def build_candle_def new_candle_def
        py_int_def TickerData_init_def deque_append_def py_maxf_def py_minf_def fl_gt_def)

theorem closed_candles_ok_witness:
  "sample_price (0, ''btcusdt'', Fin 5, Fin 0, True) \<noteq> NaN
   \<and> sample_price (30, ''btcusdt'', Fin 7, Fin 0, True) \<noteq> NaN
   \<and> sample_price (61, ''btcusdt'', Fin 6, Fin 0, True) \<noteq> NaN
   \<and> feed_samples 60 14
     [(0, ''btcusdt'', Fin 5, Fin 0, True), (30, ''btcusdt'', Fin 7, Fin 0, True),
      (61, ''btcusdt'', Fin 6, Fin 0, True)]
     (init_data [] [] [''BTCUSDT''] Map.empty) ''btcusdt''
   = Some \<lparr> price = Some (Fin 6), change_24h = Fin 0, status = ''Live'', last_update = Some 61,
       candles = [\<lparr> start = 0, c_open = Fin 5, high = Fin 7, low = Fin 5, c_close = Fin 7 \<rparr>],
       current_candle = Some \<lparr> start = 61, c_open = Fin 6, high = Fin 6, low = Fin 6, c_close = Fin 6 \<rparr>,
       source = ''binance'', last_marquee_price = Some (Fin 6) \<rparr>
   \<and> ticker_candles_ok \<lparr> price = Some (Fin 6), change_24h = Fin 0, status = ''Live'', last_update = Some 61,
       candles = [\<lparr> start = 0, c_open = Fin 5, high = Fin 7, low = Fin 5, c_close = Fin 7 \<rparr>],
       current_candle = Some \<lparr> start = 61, c_open = Fin 6, high = Fin 6, low = Fin 6, c_close = Fin 6 \<rparr>,
       source = ''binance'', last_marquee_price = Some (Fin 6) \<rparr>"
proof -
  have n: "\<forall>s\<in>set [(0, ''btcusdt'', Fin 5, Fin 0, True), (30, ''btcusdt'', Fin 7, Fin 0, True),
      (61::real, ''btcusdt'', Fin 6, Fin 0, True)]. sample_price s \<noteq> NaN"
    by (simp add: sample_price_def)
  have h: "feed_samples 60 14
     [(0, ''btcusdt'', Fin 5, Fin 0, True), (30, ''btcusdt'', Fin 7, Fin 0, True),
      (61, ''btcusdt'', Fin 6, Fin 0, True)]
     (init_data [] [] [''BTCUSDT''] Map.empty) ''btcusdt''
   = Some \<lparr> price = Some (Fin 6), change_24h = Fin 0, status = ''Live'', last_update = Some 61,
       candles = [\<lparr> start = 0, c_open = Fin 5, high = Fin 7, low = Fin 5, c_close = Fin 7 \<rparr>],
       current_candle = Some \<lparr> start = 61, c_open = Fin 6, high = Fin 6, low = Fin 6, c_close = Fin 6 \<rparr>,
       source = ''binance'', last_marquee_price = Some (Fin 6) \<rparr>"
    by (simp only: init_data_btcusdt feed_three_samples)
  from closed_candles_ok [OF n h] h n show ?thesis by simp
qed

lemma feed_nan_sample:
  "feed_samples 60 14
     [(0, ''btcusdt'', NaN, Fin 0, True), (61, ''btcusdt'', Fin 6, Fin 0, True)]
     [''btcusdt'' \<mapsto> TickerData_init ''binance''] ''btcusdt''
   = Some \<lparr> price = Some (Fin 6), change_24h = Fin 0, status = ''Live'', last_update = Some 61,
       candles = [\<lparr> start = 0, c_open = NaN, high = NaN, low = NaN, c_close = NaN \<rparr>],
       current_candle = Some \<lparr> start = 61, c_open = Fin 6, high = Fin 6, low = Fin 6, c_close = Fin 6 \<rparr>,
       source = ''binance'', last_marquee_price = Some (Fin 6) \<rparr>"
  by (simp add: update_ticker_data_def update_ticker_def build_candle_def new_candle_def
        py_int_def TickerData_init_def deque_append_def)

text \<open>
  C2 as the specification words it fails. The drivers pass on whatever
  \<^verbatim>\<open>float(...)\<close> makes of the text of a message, and that can be NaN. A sample
  with the price NaN opens a candle with NaN in its four fields; the sample of the
  next minute pushes it to the closed history, and there neither
  \<open>high >= max(open, close)\<close> nor \<open>low <= min(open, close)\<close> holds.
\<close>

theorem nan_candle_pushed:
  "candles (the (feed_samples 60 14
     [(0, ''btcusdt'', NaN, Fin 0, True), (61, ''btcusdt'', Fin 6, Fin 0, True)]
     (init_data [] [] [''BTCUSDT''] Map.empty) ''btcusdt''))
   = [\<lparr> start = 0, c_open = NaN, high = NaN, low = NaN, c_close = NaN \<rparr>]
   \<and> \<not> fl_ge NaN (py_maxf NaN NaN) \<and> \<not> fl_le NaN (py_minf NaN NaN)
   \<and> \<not> candle_ok \<lparr> start = 0, c_open = NaN, high = NaN, low = NaN, c_close = NaN \<rparr>"
  by (simp only: init_data_btcusdt feed_nan_sample)
     (simp add: candle_ok_def fl_ge_def py_maxf_def py_minf_def fl_gt_def)

subsection \<open>Opening and widening a candle\<close>

lemma py_int_floor: "0 \<le> x \<Longrightarrow> py_int x = \<lfloor>x\<rfloor>"
  by (simp add: py_int_def)

text \<open>
  C4, as the code has it. When a sample arrives for a known key and there is no open
  candle, or \<open>now - start\<close> of the open candle is at least the bucket width, the
  open candle (if any) is appended to the closed history and the new open candle has
  \<open>open = high = low = close = price\<close> and \<open>start = int(now)\<close>, the clock reading
  cut to whole seconds (its floor for a clock that is not negative); it is not
  floored to a multiple of the bucket width. Otherwise the history is untouched
  and the open candle keeps its \<open>start\<close> and \<open>open\<close>, widens \<open>high\<close> and \<open>low\<close>
  and takes the price as \<open>close\<close>.
\<close>

theorem update_ticker_data_candle:
  assumes "data key = Some ticker"
  shows "snd (update_ticker_data cs mc now key p change um data) key
           = Some (update_ticker cs mc now p change um ticker)
       \<and> (case current_candle ticker of
            None \<Rightarrow>
              candles (update_ticker cs mc now p change um ticker) = candles ticker
              \<and> current_candle (update_ticker cs mc now p change um ticker)
                  = Some \<lparr> start = of_int (py_int now), c_open = p, high = p, low = p, c_close = p \<rparr>
          | Some c \<Rightarrow>
              if now - start c \<ge> cs
              then candles (update_ticker cs mc now p change um ticker)
                     = deque_append mc (candles ticker) c
                   \<and> current_candle (update_ticker cs mc now p change um ticker)
                       = Some \<lparr> start = of_int (py_int now), c_open = p, high = p, low = p, c_close = p \<rparr>
              else candles (update_ticker cs mc now p change um ticker) = candles ticker
                   \<and> current_candle (update_ticker cs mc now p change um ticker)
                       = Some \<lparr> start = start c, c_open = c_open c, high = py_maxf (high c) p,
                                low = py_minf (low c) p, c_close = p \<rparr>)
       \<and> (0 \<le> now \<longrightarrow> py_int now = \<lfloor>now\<rfloor>)"
  using assms
  by (cases "current_candle ticker")
     (simp_all add: update_ticker_data_def update_ticker_def build_candle_def new_candle_def
        py_int_floor Let_def)

theorem update_ticker_data_candle_witness:
  "[''btcusdt'' \<mapsto> TickerData_init ''binance''] ''btcusdt'' = Some (TickerData_init ''binance'')
   \<and> current_candle (update_ticker 60 14 125 (Fin 100) (Fin 0) True (TickerData_init ''binance''))
       = Some \<lparr> start = 125, c_open = Fin 100, high = Fin 100, low = Fin 100, c_close = Fin 100 \<rparr>"
proof -
  have h: "[''btcusdt'' \<mapsto> TickerData_init ''binance''] ''btcusdt'' = Some (TickerData_init ''binance'')"
    by simp
  have n: "current_candle (TickerData_init ''binance'') = None"
    by (simp add: TickerData_init_def)
  have i: "py_int 125 = 125"
    by (simp add: py_int_def)
  from update_ticker_data_candle
         [where data = "[''btcusdt'' \<mapsto> TickerData_init ''binance'']" and key = "''btcusdt''"
            and ticker = "TickerData_init ''binance''" and cs = 60 and mc = 14 and now = 125
            and p = "Fin 100" and change = "Fin 0" and um = True, OF h] h
  show ?thesis
    by (simp add: n i)
qed

lemma first_sample_at_125:
  "snd (update_ticker_data 60 14 125 ''btcusdt'' (Fin 100) (Fin 0) True
          [''btcusdt'' \<mapsto> TickerData_init ''binance'']) ''btcusdt''
   = Some \<lparr> price = Some (Fin 100), change_24h = Fin 0, status = ''Live'', last_update = Some 125,
       candles = [],
       current_candle = Some \<lparr> start = 125, c_open = Fin 100, high = Fin 100, low = Fin 100,
                                c_close = Fin 100 \<rparr>,
       source = ''binance'', last_marquee_price = Some (Fin 100) \<rparr>"
  by (simp add: update_ticker_data_def update_ticker_def build_candle_def new_candle_def
        py_int_def TickerData_init_def)

text \<open>
  C4 as the specification words it fails: with a bucket width of 60 seconds, a first
  sample at clock reading 125 opens a candle that starts at 125, while the multiple of
  60 below 125 is 120.
\<close>

theorem start_not_bucket_aligned:
  "map_option start (current_candle (the (snd (update_ticker_data 60 14 125 ''btcusdt'' (Fin 100) (Fin 0) True
       (init_data [] [] [''BTCUSDT''] Map.empty)) ''btcusdt''))) = Some 125
   \<and> spec_bucket_start 60 125 = 120"
  by (simp only: init_data_btcusdt first_sample_at_125) (simp add: spec_bucket_start_def)

section \<open>Readers beside the writer\<close>

text \<open>The steps of the writer, taken alone, are \<open>update_ticker\<close>.\<close>

lemma writer_alone:
  "map_option ticker_obj
     (run_schedule cs mc now p change um [Writer, Writer, Writer, Writer, Writer, Writer, Writer, Writer] (race_init t))
   = Some (update_ticker cs mc now p change um t)"
  by (simp add: writer_step_def race_init_def update_ticker_def Let_def)

lemma build_candle_keeps:
  "price (build_candle cs mc now p t) = price t
   \<and> last_update (build_candle cs mc now p t) = last_update t"
  by (simp add: build_candle_def split: option.splits)

lemma ticker_before_fields:
  "price ticker_before = Some (Fin 50000) \<and> last_update ticker_before = Some 100"
  by (simp add: ticker_before_def update_ticker_def build_candle_keeps Let_def)

text \<open>
  C8 fails on the code. The writer holds \<open>data_lock\<close> for the whole update, but
  the render loop reads the fields of the ticker object after it has released the
  lock. In the schedule below the render loop fetches the object and passes the
  marquee check, the writer takes the lock and assigns the price, and the render loop
  then reads the new price 50500 beside the old \<open>last_update\<close> 100; the writer
  ends with \<open>last_update\<close> 130.
\<close>

theorem render_sees_torn_record:
  "price ticker_before = Some (Fin 50000) \<and> last_update ticker_before = Some 100
   \<and> map_option (\<lambda>s. (seen_price s, seen_last_update s))
       (run_schedule 60 14 130 (Fin 50500) (Fin 1.5) True
          [Render, Render, Render, Render, Render, Writer, Writer, Render, Render,
           Writer, Writer, Writer, Writer, Writer, Writer]
          (race_init ticker_before))
     = Some (Some (Fin 50500), Some 100)
   \<and> map_option (\<lambda>s. (price (ticker_obj s), last_update (ticker_obj s)))
       (run_schedule 60 14 130 (Fin 50500) (Fin 1.5) True
          [Render, Render, Render, Render, Render, Writer, Writer, Render, Render,
           Writer, Writer, Writer, Writer, Writer, Writer]
          (race_init ticker_before))
     = Some (Some (Fin 50500), Some 130)"
  by (simp add: ticker_before_fields writer_step_def render_step_def race_init_def
        build_candle_keeps Let_def)

section \<open>Reconnect delay of the streaming drivers\<close>













section \<open>Connection health\<close>

lemma kraken_callback_helpers:
  "helpers_binance_ws_status (fold kraken_callback evs m) = helpers_binance_ws_status m
   \<and> helpers_kraken_ws_status (fold kraken_callback evs m) = helpers_kraken_ws_status m
   \<and> helpers_wifi_ok (fold kraken_callback evs m) = helpers_wifi_ok m
   \<and> helpers_last_wifi_check (fold kraken_callback evs m) = helpers_last_wifi_check m"
proof (induction evs arbitrary: m)
  case Nil
  show ?case by simp
next
  case (Cons e evs)
  show ?case
    by (cases e) (simp_all add: Cons.IH kraken_on_open_def kraken_on_error_def kraken_on_close_def)
qed

lemma binance_callback_helpers:
  "helpers_binance_ws_status (fold binance_callback evs m) = helpers_binance_ws_status m
   \<and> helpers_kraken_ws_status (fold binance_callback evs m) = helpers_kraken_ws_status m
   \<and> helpers_wifi_ok (fold binance_callback evs m) = helpers_wifi_ok m
   \<and> helpers_last_wifi_check (fold binance_callback evs m) = helpers_last_wifi_check m"
proof (induction evs arbitrary: m)
  case Nil
  show ?case by simp
next
  case (Cons e evs)
  show ?case
    by (cases e) (simp_all add: Cons.IH binance_on_open_def binance_on_error_def binance_on_close_def)
qed

lemma connecting_ok: "binance_ok (''Connecting'' @ ellipsis) \<and> kraken_ok (''Connecting'' @ ellipsis)"
  by code_simp

lemma live_error_classes:
  "binance_ok ''Live'' \<and> kraken_ok ''Live'' \<and> \<not> binance_ok ''Error'' \<and> \<not> kraken_ok ''Error''"
  by code_simp

lemma colours_distinct: "GREEN \<noteq> ORANGE \<and> GREEN \<noteq> RED \<and> ORANGE \<noteq> RED"
  by (simp add: GREEN_def ORANGE_def RED_def)

lemma health_always_green:
  "interval < now \<Longrightarrow>
   fst (get_ws_color interval now True
          (fold kraken_callback kevs (fold binance_callback bevs modules_init))) = GREEN"
proof -
  assume a: "interval < now"
  let ?m = "fold kraken_callback kevs (fold binance_callback bevs modules_init)"
  have "helpers_binance_ws_status ?m = ''Connecting'' @ ellipsis"
    and "helpers_kraken_ws_status ?m = ''Connecting'' @ ellipsis"
    and "helpers_last_wifi_check ?m = 0"
    by (simp_all add: kraken_callback_helpers binance_callback_helpers modules_init_def)
  with a connecting_ok show ?thesis
    by (simp add: get_ws_color_def ws_color_of_def Let_def)
qed

text \<open>
  C6 fails on the code. The drivers' callbacks rebind the status names of
  websockets.py, \<open>get_ws_color\<close> reads the names of helpers.py, which keep the
  initial status. With the Binance driver Live and the Kraken driver in Error and a
  successful probe the colour is green, where the classification of the two statuses
  gives orange.
\<close>

theorem health_ignores_driver_status:
  "websockets_binance_ws_status
     (fold kraken_callback [OnError ''timed out''] (fold binance_callback [OnOpen] modules_init)) = ''Live''
   \<and> websockets_kraken_ws_status
     (fold kraken_callback [OnError ''timed out''] (fold binance_callback [OnOpen] modules_init)) = ''Error''
   \<and> fst (get_ws_color 12 100 True
        (fold kraken_callback [OnError ''timed out''] (fold binance_callback [OnOpen] modules_init))) = GREEN
   \<and> ws_color_of True ''Live'' ''Error'' = ORANGE
   \<and> GREEN \<noteq> ORANGE"
proof -
  have g: "fst (get_ws_color 12 100 True
        (fold kraken_callback [OnError ''timed out''] (fold binance_callback [OnOpen] modules_init))) = GREEN"
    by (rule health_always_green) simp
  have o: "ws_color_of True ''Live'' ''Error'' = ORANGE"
    using live_error_classes by (simp add: ws_color_of_def)
  have s: "websockets_binance_ws_status
     (fold kraken_callback [OnError ''timed out''] (fold binance_callback [OnOpen] modules_init)) = ''Live''
   \<and> websockets_kraken_ws_status
     (fold kraken_callback [OnError ''timed out''] (fold binance_callback [OnOpen] modules_init)) = ''Error''"
    by (simp add: kraken_on_error_def binance_on_open_def modules_init_def)
  from g o s colours_distinct show ?thesis by blast
qed

text \<open>
  C10. The initial status "Connecting..." (with the ellipsis character) is in both
  lists of good statuses; when \<open>get_ws_color\<close> reads it for both drivers and the
  connectivity is fine, the colour is green.
\<close>

theorem initial_status_is_healthy:
  "helpers_binance_ws_status m = ''Connecting'' @ ellipsis \<Longrightarrow>
   helpers_kraken_ws_status m = ''Connecting'' @ ellipsis \<Longrightarrow>
   helpers_wifi_ok (snd (get_ws_color interval now probe m)) \<Longrightarrow>
     binance_ok (helpers_binance_ws_status m) \<and> kraken_ok (helpers_kraken_ws_status m)
     \<and> fst (get_ws_color interval now probe m) = GREEN"
  using connecting_ok
  by (simp add: get_ws_color_def ws_color_of_def Let_def split: if_splits)

theorem initial_status_is_healthy_witness:
  "helpers_binance_ws_status modules_init = ''Connecting'' @ ellipsis
   \<and> helpers_kraken_ws_status modules_init = ''Connecting'' @ ellipsis
   \<and> helpers_wifi_ok (snd (get_ws_color 12 100 True modules_init))
   \<and> fst (get_ws_color 12 100 True modules_init) = GREEN"
proof -
  have b: "helpers_binance_ws_status modules_init = ''Connecting'' @ ellipsis"
    and k: "helpers_kraken_ws_status modules_init = ''Connecting'' @ ellipsis"
    by (simp_all add: modules_init_def)
  have w: "helpers_wifi_ok (snd (get_ws_color 12 100 True modules_init))"
    by (simp add: get_ws_color_def modules_init_def)
  from initial_status_is_healthy [OF b k w] b k w show ?thesis by blast
qed

section \<open>Miner polling\<close>








subsection \<open>Cycles evaluated in the 64-bit format\<close>

lemma round_double_values:
  "round_double 1 = 1 \<and> round_double 5 = 5 \<and> round_double 10 = 10 \<and> round_double 15 = 15
   \<and> round_double 100 = 100 \<and> round_double 200 = 200 \<and> round_double 300 = 300
   \<and> round_double 1000 = 1000 \<and> round_double 5000 = 5000 \<and> round_double 10000 = 10000
   \<and> round_double (- 3) = - 3 \<and> round_double 3 = 3 \<and> round_double 600 = 600
   \<and> round_double 600000000000000000000 = 600000000000000000000"
  by code_simp






lemma no_overflow:
  "\<not> float_overflows 0 \<and> \<not> float_overflows 100 \<and> \<not> float_overflows 200 \<and> \<not> float_overflows 300
   \<and> \<not> float_overflows 1000 \<and> \<not> float_overflows 5000 \<and> \<not> float_overflows 10000
   \<and> \<not> float_overflows 3 \<and> \<not> float_overflows 600000000000000000000"
  by (simp add: float_overflows_def)

lemma scenario_fetch:
  "fetch_miner_stats round_double scenario_net ''10.0.0.1'' = (10, JNum 500, True)
   \<and> fetch_miner_stats round_double scenario_net ''10.0.0.2'' = (0, JNum 0, False)
   \<and> fetch_miner_stats round_double scenario_net ''10.0.0.3'' = (5, JNum 300, True)"
  by (simp add: fetch_miner_stats_def fetch_miner_try_def scenario_net_def bind_err_def
        raise_for_status_def resp_json_def no_overflow fl_div_def fl_round_def round_double_values)







subsection \<open>Endpoints that fail\<close>

lemma fetch_miner_try_failures:
  "(net ip = Inl e \<longrightarrow> fetch_miner_try rnd net ip = Inl e)
   \<and> (net ip = Inr resp \<and> 400 \<le> status_code resp \<and> status_code resp < 600
        \<longrightarrow> fetch_miner_try rnd net ip = Inl HTTPError)
   \<and> (net ip = Inr resp \<and> \<not> (400 \<le> status_code resp \<and> status_code resp < 600) \<and> body resp = None
        \<longrightarrow> fetch_miner_try rnd net ip = Inl JSONDecodeError)"
  by (simp add: fetch_miner_try_def bind_err_def raise_for_status_def resp_json_def)

lemma fetch_miner_try_isl:
  assumes "net ip = Inl e
     \<or> (\<exists>resp. net ip = Inr resp
          \<and> (400 \<le> status_code resp \<and> status_code resp < 600 \<or> body resp = None))
     \<or> isl (fetch_miner_try rnd net ip)"
  shows "isl (fetch_miner_try rnd net ip)"
proof -
  have "isl (fetch_miner_try rnd net ip)" if "net ip = Inr resp"
      and "400 \<le> status_code resp \<and> status_code resp < 600 \<or> body resp = None" for resp
    using that by (auto simp: fetch_miner_try_def bind_err_def raise_for_status_def resp_json_def)
  moreover have "isl (fetch_miner_try rnd net ip)" if "net ip = Inl e"
    using that by (simp add: fetch_miner_try_def bind_err_def)
  ultimately show ?thesis using assms by blast
qed

lemma accumulate_append:
  "accumulate rnd t (xs @ ys) acc = bind_err (accumulate rnd t xs acc) (accumulate rnd t ys)"
proof (induction xs arbitrary: acc)
  case Nil
  show ?case by (simp add: bind_err_def)
next
  case (Cons x xs)
  obtain h df cn where x: "x = (h, df, cn)" by (cases x) auto
  obtain a b c d where acc: "acc = (a, b, c, d)" by (cases acc) auto
  show ?case
    by (cases "py_max b df") (simp_all add: x acc bind_err_def Cons.IH)
qed

lemma py_max_ge: "py_max b df = Inr b' \<Longrightarrow> b \<le> b'"
  by (cases df) (auto split: if_splits)

lemma accumulate_best_ge:
  "accumulate rnd t xs (a, b, c, d) = Inr (a', b', c', d') \<Longrightarrow> b \<le> b'"
proof (induction xs arbitrary: a b c d)
  case Nil
  then show ?case by simp
next
  case (Cons x xs)
  obtain h df cn where x: "x = (h, df, cn)" by (cases x) auto
  from Cons.prems obtain b1 where m: "py_max b df = Inr b1"
    by (cases "py_max b df") (simp_all add: x bind_err_def)
  from Cons.prems m have
    "accumulate rnd t xs (fl_add rnd a h, b1, (if cn then c + 1 else c), (if h > t then d + 1 else d))
       = Inr (a', b', c', d')"
    by (simp add: x bind_err_def)
  from Cons.IH [OF this] py_max_ge [OF m] show ?case by simp
qed

lemma accumulate_zero:
  "0 \<le> t \<Longrightarrow> 0 \<le> b \<Longrightarrow>
     accumulate rnd t ((0, JNum 0, False) # ys) (a, b, c, d) = accumulate rnd t ys (a, b, c, d)"
  by (simp add: bind_err_def fl_add_def)

text \<open>
  C7. When the request of an endpoint fails (the request raises, the status is an
  error status, the body is no JSON, or anything else raises inside the
  \<^verbatim>\<open>try\<close>), \<open>fetch_miner_stats\<close> returns \<open>(0, 0, False)\<close>: it is a total
  function, nothing is raised to the caller. With a threshold that is not negative
  the cycle then accumulates what it would accumulate without that endpoint.
\<close>

theorem fetch_miner_stats_failure:
  assumes "net ip = Inl e
     \<or> (\<exists>resp. net ip = Inr resp
          \<and> (400 \<le> status_code resp \<and> status_code resp < 600 \<or> body resp = None))
     \<or> isl (fetch_miner_try rnd net ip)"
    and "0 \<le> t"
  shows "fetch_miner_stats rnd net ip = (0, JNum 0, False)
       \<and> accumulate rnd t (map (fetch_miner_stats rnd net) (xs @ ip # ys)) (0, 0, 0, 0)
           = accumulate rnd t (map (fetch_miner_stats rnd net) (xs @ ys)) (0, 0, 0, 0)"
proof -
  have z: "fetch_miner_stats rnd net ip = (0, JNum 0, False)"
    using fetch_miner_try_isl [OF assms(1)]
    by (cases "fetch_miner_try rnd net ip") (simp_all add: fetch_miner_stats_def)
  let ?f = "fetch_miner_stats rnd net"
  have "accumulate rnd t (map ?f xs @ (0, JNum 0, False) # map ?f ys) (0, 0, 0, 0)
          = accumulate rnd t (map ?f xs @ map ?f ys) (0, 0, 0, 0)"
  proof (cases "accumulate rnd t (map ?f xs) (0, 0, 0, 0)")
    case (Inl err)
    then show ?thesis by (simp add: accumulate_append bind_err_def)
  next
    case (Inr acc)
    obtain a b c d where acc: "acc = (a, b, c, d)" by (cases acc) auto
    from Inr acc have "0 \<le> b" using accumulate_best_ge by blast
    with Inr acc assms(2) show ?thesis
      by (simp add: accumulate_append bind_err_def del: accumulate.simps add: accumulate_zero)
  qed
  with z show ?thesis by simp
qed

theorem fetch_miner_stats_failure_witness:
  "scenario_net ''10.0.0.2'' = Inl RequestException
   \<and> fetch_miner_stats round_double scenario_net ''10.0.0.2'' = (0, JNum 0, False)
   \<and> accumulate round_double 0.25
        (map (fetch_miner_stats round_double scenario_net) ([''10.0.0.1''] @ ''10.0.0.2'' # [''10.0.0.3'']))
        (0, 0, 0, 0) = Inr (15, 500, 2, 2)"
proof -
  have n: "scenario_net ''10.0.0.2'' = Inl RequestException"
    by (simp add: scenario_net_def)
  then have h: "scenario_net ''10.0.0.2'' = Inl RequestException
     \<or> (\<exists>resp. scenario_net ''10.0.0.2'' = Inr resp
          \<and> (400 \<le> status_code resp \<and> status_code resp < 600 \<or> body resp = None))
     \<or> isl (fetch_miner_try round_double scenario_net ''10.0.0.2'')" by blast
  have t: "(0::real) \<le> 0.25" by simp
  have r: "accumulate round_double 0.25
        (map (fetch_miner_stats round_double scenario_net) ([''10.0.0.1''] @ [''10.0.0.3'']))
        (0, 0, 0, 0) = Inr (15, 500, 2, 2)"
    by (simp add: scenario_fetch bind_err_def fl_add_def fl_round_def round_double_values)
  from fetch_miner_stats_failure [OF h t, of "[''10.0.0.1'']" "[''10.0.0.3'']"]
  have z: "fetch_miner_stats round_double scenario_net ''10.0.0.2'' = (0, JNum 0, False)"
    and e: "accumulate round_double 0.25
        (map (fetch_miner_stats round_double scenario_net) ([''10.0.0.1''] @ ''10.0.0.2'' # [''10.0.0.3'']))
        (0, 0, 0, 0)
      = accumulate round_double 0.25
        (map (fetch_miner_stats round_double scenario_net) ([''10.0.0.1''] @ [''10.0.0.3'']))
        (0, 0, 0, 0)"
    by blast+
  from n z e r show ?thesis by (simp only:)
qed

section \<open>Network statistics polling\<close>





lemma bind_err_Inr_eq: "r = Inr x \<Longrightarrow> bind_err r f = f x"
  by (simp add: bind_err_def)

















subsection \<open>Cycles evaluated\<close>



lemma timeout_try: "mempool_try latin1_runtime hashrate_timeout_env = Inl RequestException"
  by code_simp


lemma bare_try:
  "mempool_try latin1_runtime bare_block_env =
     Inr \<lparr> fees_sats_vb = Some (Fin 3), block_height = Some 870000,
           mining_pool = JStr ''Unknown'', network_hashrate_eh = Some 600,
           network_difficulty = JNull \<rparr>"
  by code_simp

lemma superscript_try: "mempool_try latin1_runtime superscript_env = Inl ValueError"
  by code_simp









end
